theory Spec2Isabelle
  imports Main
begin

section \<open>The VRF key commands of the local client\<close>

text \<open>
  The file embeds the command handlers of \<^verbatim>\<open>core/cmd/local_client_vrf.go\<close>. A handler
  reads the flags of its \<^verbatim>\<open>clipkg.Context\<close>, calls the VRF key store of the application,
  reads and writes files, prints to standard output and returns a Go \<^verbatim>\<open>error\<close>
  (\<open>None\<close> is \<^verbatim>\<open>nil\<close>).

  Go's \<^verbatim>\<open>string\<close> and \<^verbatim>\<open>[]byte\<close> are both byte sequences and are both modelled by
  \<open>string\<close>; the conversions \<^verbatim>\<open>string(b)\<close> and \<^verbatim>\<open>[]byte(s)\<close> are the identity.
\<close>

subsection \<open>Errors\<close>

text \<open>
  \<open>Errorf m\<close> is \<^verbatim>\<open>fmt.Errorf(m)\<close>, \<open>Wrap e m\<close> is \<^verbatim>\<open>errors.Wrap(e, m)\<close> (and
  \<^verbatim>\<open>errors.Wrapf\<close> with the message already formatted). \<open>MatchingVRFKeyError\<close> and
  \<open>AttemptToDeleteNonExistentKeyFromDB\<close> are the two sentinel errors of package
  \<^verbatim>\<open>store\<close> the handlers compare against. \<open>NotExist path\<close> is the error of the
  operating system for a path at which nothing exists, the one \<^verbatim>\<open>os.IsNotExist\<close> holds
  for. \<open>OtherError\<close> is any other error of the key store, the operating system or the
  JSON decoder.
\<close>

datatype error =
    Errorf string
  | Wrap error string
  | MatchingVRFKeyError
  | AttemptToDeleteNonExistentKeyFromDB
  | NotExist string
  | OtherError string

subsection \<open>The command line context\<close>

text \<open>
  A \<^verbatim>\<open>clipkg.Context\<close> is read only through \<^verbatim>\<open>IsSet\<close> and \<^verbatim>\<open>String\<close>: it is
  the partial map from the names of the flags that were set to their values.
\<close>

type_synonym Context = "string \<rightharpoonup> string"

definition IsSet :: "Context \<Rightarrow> string \<Rightarrow> bool" where
  "IsSet c name = (c name \<noteq> None)"

definition String :: "Context \<Rightarrow> string \<Rightarrow> string" where
  "String c name = (case c name of None \<Rightarrow> [] | Some v \<Rightarrow> v)"

subsection \<open>The world a handler runs in\<close>

text \<open>
  \<open>CallX\<close> records one call of method \<open>X\<close> of the key store, with its arguments.
\<close>

datatype 'pk ks_call =
    CallCreateKey string
  | CallCreateWeak string
  | CallImport string string
  | CallExport 'pk
  | CallDelete 'pk

text \<open>
  One entry of the log: \<^verbatim>\<open>logger.Infow(msg, publicKey, err)\<close>.
\<close>

datatype 'pk log_entry = Infow string 'pk error

text \<open>
  What the operating system finds at a path that holds no file: nothing, a directory, or
  a failure of the lookup itself (a component of the path is not a directory, the name is
  too long, a permission is missing), with its message.
\<close>

datatype other_entry = Nothing | Directory | Unreachable string

text \<open>
  The state the handlers read and change:
  \<^item> \<open>files\<close>: the content of every file, by path (\<open>None\<close>: no such file);
  \<^item> \<open>others\<close>: what is found at a path that holds no file;
  \<^item> \<open>writeError\<close>: the paths the environment refuses to write (a directory, a missing
    parent directory, permissions), with the error the write returns;
  \<^item> \<open>stdout\<close>: the bytes printed so far;
  \<^item> \<open>logged\<close>: the entries sent to the logger so far;
  \<^item> \<open>ks\<close>: the state of the VRF key store (its database and its in-memory keys);
  \<^item> \<open>calls\<close>: the calls made to the key store so far.
\<close>

record ('ks, 'pk) world =
  files :: "string \<rightharpoonup> string"
  others :: "string \<Rightarrow> other_entry"
  writeError :: "string \<Rightarrow> error option"
  stdout :: string
  logged :: "'pk log_entry list"
  ks :: 'ks
  calls :: "'pk ks_call list"

text \<open>
  \<^verbatim>\<open>fmt.Println(s)\<close> prints \<open>s\<close> and a newline; \<^verbatim>\<open>fmt.Printf\<close> prints the formatted
  string.
\<close>

definition Print :: "string \<Rightarrow> ('ks, 'pk) world \<Rightarrow> ('ks, 'pk) world" where
  "Print s w = w\<lparr>stdout := stdout w @ s\<rparr>"

definition Println :: "string \<Rightarrow> ('ks, 'pk) world \<Rightarrow> ('ks, 'pk) world" where
  "Println s w = Print (s @ ''\<newline>'') w"

text \<open>
  \<^verbatim>\<open>ioutil.ReadFile\<close> and \<^verbatim>\<open>ioutil.WriteFile\<close>. Reading a file returns its content;
  reading a path that holds no file returns the error of what is found there. A write the
  environment refuses returns its error and leaves the files as they were; any other write
  replaces the content at the path.
\<close>

definition ReadFile :: "string \<Rightarrow> ('ks, 'pk) world \<Rightarrow> error + string" where
  "ReadFile path w =
     (case files w path of
        Some data \<Rightarrow> Inr data
      | None \<Rightarrow>
          (case others w path of
             Nothing \<Rightarrow> Inl (NotExist path)
           | Directory \<Rightarrow> Inl (OtherError (''read '' @ path @ '': is a directory''))
           | Unreachable msg \<Rightarrow> Inl (OtherError msg)))"

definition WriteFile ::
  "string \<Rightarrow> string \<Rightarrow> ('ks, 'pk) world \<Rightarrow> error option \<times> ('ks, 'pk) world" where
  "WriteFile path data w =
     (case writeError w path of
        Some e \<Rightarrow> (Some e, w)
      | None \<Rightarrow> (None, w\<lparr>files := (files w)(path \<mapsto> data)\<rparr>))"

text \<open>
  \<^verbatim>\<open>utils.JustError(os.Stat(path))\<close>: \<^verbatim>\<open>nil\<close> when a file or a directory is at the path,
  the error \<open>NotExist\<close> when nothing is, the error of the lookup when it fails otherwise.
\<close>

definition Stat :: "string \<Rightarrow> ('ks, 'pk) world \<Rightarrow> error option" where
  "Stat path w =
     (case files w path of
        Some data \<Rightarrow> None
      | None \<Rightarrow>
          (case others w path of
             Nothing \<Rightarrow> Some (NotExist path)
           | Directory \<Rightarrow> None
           | Unreachable msg \<Rightarrow> Some (OtherError msg)))"

text \<open>
  \<^verbatim>\<open>os.IsNotExist(err)\<close>: false for \<^verbatim>\<open>nil\<close> and for every error but \<open>NotExist\<close>.
\<close>

definition IsNotExist :: "error option \<Rightarrow> bool" where
  "IsNotExist err = (case err of Some (NotExist path) \<Rightarrow> True | _ \<Rightarrow> False)"

text \<open>
  \<^verbatim>\<open>func noFileToOverwrite(path string) bool { return os.IsNotExist(utils.JustError(os.Stat(path))) }\<close>
\<close>

definition noFileToOverwrite :: "string \<Rightarrow> ('ks, 'pk) world \<Rightarrow> bool" where
  "noFileToOverwrite path w = IsNotExist (Stat path w)"

subsection \<open>What the handlers call outside this file\<close>

text \<open>
  The handlers call functions that are declared outside \<^verbatim>\<open>local_client_vrf.go\<close>. They
  are the parameters of the embedding:
  \<^item> \<open>passwordFromFile\<close>: \<^verbatim>\<open>passwordFromFile(path)\<close> of package \<^verbatim>\<open>cmd\<close>, a function of
    the path and the files;
  \<^item> \<open>NewPublicKeyFromHex\<close> and \<open>PublicKey_String\<close>: \<^verbatim>\<open>vrfkey.NewPublicKeyFromHex\<close> and
    the \<^verbatim>\<open>String()\<close> method of a \<^verbatim>\<open>vrfkey.PublicKey\<close> (\<open>'pk\<close>), which \<^verbatim>\<open>%s\<close> prints;
  \<^item> \<open>json_PublicKey\<close>: \<^verbatim>\<open>json.Unmarshal(keyjson, &key)\<close> into
    \<^verbatim>\<open>struct{ PublicKey string }\<close>, giving the decoder's error or \<^verbatim>\<open>key.PublicKey\<close>;
  \<^item> \<open>key_JSON\<close>: the serialised form of an encrypted key record (\<open>'key\<close>);
  \<^item> \<open>ks_CreateKey\<close>, \<open>ks_Import\<close>, \<open>ks_Export\<close>, \<open>ks_Delete\<close>: the methods of
    \<^verbatim>\<open>store.VRFKeyStore\<close>, as functions of their arguments and the state of the key store,
    returning their Go results and the new state. \<open>ks_Export\<close> returns both the list of
    serialised keys and the error, as the Go method does;
  \<^item> \<open>weakKey\<close>: the generation of a key encrypted under the weak parameters.
\<close>

record ('ks, 'pk, 'key) env =
  passwordFromFile :: "string \<Rightarrow> (string \<rightharpoonup> string) \<Rightarrow> error + string"
  NewPublicKeyFromHex :: "string \<Rightarrow> error + 'pk"
  PublicKey_String :: "'pk \<Rightarrow> string"
  json_PublicKey :: "string \<Rightarrow> error + string"
  key_JSON :: "'key \<Rightarrow> string"
  ks_CreateKey :: "string \<Rightarrow> 'ks \<Rightarrow> (error + 'pk) \<times> 'ks"
  ks_Import :: "string \<Rightarrow> string \<Rightarrow> 'ks \<Rightarrow> error option \<times> 'ks"
  ks_Export :: "'pk \<Rightarrow> 'ks \<Rightarrow> (string list \<times> error option) \<times> 'ks"
  ks_Delete :: "'pk \<Rightarrow> 'ks \<Rightarrow> error option \<times> 'ks"
  weakKey :: "string \<Rightarrow> 'ks \<Rightarrow> error + 'key"

text \<open>
  \<^verbatim>\<open>vRFKeyStore(cli).CreateKey(password)\<close> and its siblings: the method runs on the state
  of the key store, and the call is recorded.
\<close>

definition CreateKey ::
  "('ks, 'pk, 'key) env \<Rightarrow> string \<Rightarrow> ('ks, 'pk) world \<Rightarrow> (error + 'pk) \<times> ('ks, 'pk) world" where
  "CreateKey env password w =
     (case ks_CreateKey env password (ks w) of
        (r, s) \<Rightarrow> (r, w\<lparr>ks := s, calls := calls w @ [CallCreateKey password]\<rparr>))"

definition Import ::
  "('ks, 'pk, 'key) env \<Rightarrow> string \<Rightarrow> string \<Rightarrow> ('ks, 'pk) world
     \<Rightarrow> error option \<times> ('ks, 'pk) world" where
  "Import env keyjson password w =
     (case ks_Import env keyjson password (ks w) of
        (r, s) \<Rightarrow> (r, w\<lparr>ks := s, calls := calls w @ [CallImport keyjson password]\<rparr>))"

definition Export ::
  "('ks, 'pk, 'key) env \<Rightarrow> 'pk \<Rightarrow> ('ks, 'pk) world
     \<Rightarrow> (string list \<times> error option) \<times> ('ks, 'pk) world" where
  "Export env publicKey w =
     (case ks_Export env publicKey (ks w) of
        (r, s) \<Rightarrow> (r, w\<lparr>ks := s, calls := calls w @ [CallExport publicKey]\<rparr>))"

definition Delete ::
  "('ks, 'pk, 'key) env \<Rightarrow> 'pk \<Rightarrow> ('ks, 'pk) world \<Rightarrow> error option \<times> ('ks, 'pk) world" where
  "Delete env publicKey w =
     (case ks_Delete env publicKey (ks w) of
        (r, s) \<Rightarrow> (r, w\<lparr>ks := s, calls := calls w @ [CallDelete publicKey]\<rparr>))"

text \<open>
  Modelled from the spec: \<^verbatim>\<open>CreateWeakInMemoryEncryptedKeyXXXTestingOnly\<close> of
  \<^verbatim>\<open>store.VRFKeyStore\<close> is not in \<^verbatim>\<open>local_client_vrf.go\<close>. The spec (4.3,
  CreateWeakTestingKey): "Identical key-generation step, but encrypts under the weak
  profile and does not write to the persistent registry. Returns the record to the
  caller for explicit disk export". The method returns the generated record (or the
  error of the encryption) and leaves the state of the key store as it is.
\<close>

definition CreateWeakInMemoryEncryptedKeyXXXTestingOnly ::
  "('ks, 'pk, 'key) env \<Rightarrow> string \<Rightarrow> ('ks, 'pk) world \<Rightarrow> (error + 'key) \<times> ('ks, 'pk) world" where
  "CreateWeakInMemoryEncryptedKeyXXXTestingOnly env password w =
     (weakKey env password (ks w), w\<lparr>calls := calls w @ [CallCreateWeak password]\<rparr>)"

text \<open>
  Modelled from the spec: \<^verbatim>\<open>WriteToDisk\<close> of \<^verbatim>\<open>vrfkey.EncryptedSecretKey\<close> is not in
  \<^verbatim>\<open>local_client_vrf.go\<close>. The spec (2, Disk Export/Import Adapter): "serializes/deserializes
  an Encrypted Key Record to/from a portable file representation". The method writes the
  serialised record to the path.
\<close>

definition WriteToDisk ::
  "('ks, 'pk, 'key) env \<Rightarrow> 'key \<Rightarrow> string \<Rightarrow> ('ks, 'pk) world
     \<Rightarrow> error option \<times> ('ks, 'pk) world" where
  "WriteToDisk env key path w = WriteFile path (key_JSON env key) w"

subsection \<open>Reading the flags\<close>

definition getPassword ::
  "('ks, 'pk, 'key) env \<Rightarrow> Context \<Rightarrow> ('ks, 'pk) world \<Rightarrow> error + string" where
  "getPassword env c w =
     (if \<not> IsSet c ''password'' then Inl (Errorf ''must specify password file'')
      else (case passwordFromFile env (String c ''password'') (files w) of
              Inl err \<Rightarrow>
                Inl (Wrap err (''could not read password from file '' @ String c ''password''))
            | Inr rawPassword \<Rightarrow> Inr rawPassword))"

definition getPasswordAndKeyFile ::
  "('ks, 'pk, 'key) env \<Rightarrow> Context \<Rightarrow> ('ks, 'pk) world \<Rightarrow> error + string \<times> string" where
  "getPasswordAndKeyFile env c w =
     (case getPassword env c w of
        Inl err \<Rightarrow> Inl err
      | Inr password \<Rightarrow>
          if \<not> IsSet c ''file'' then Inl (Errorf ''must specify key file'')
          else let keypath = String c ''file'' in
               (case ReadFile keypath w of
                  Inl err \<Rightarrow> Inl (Wrap err (''failed to read file '' @ keypath))
                | Inr keyjson \<Rightarrow> Inr (password, keyjson)))"

definition getPublicKey :: "('ks, 'pk, 'key) env \<Rightarrow> Context \<Rightarrow> error + 'pk" where
  "getPublicKey env c =
     (if \<not> IsSet c ''publicKey'' then Inl (Errorf ''must specify public key'')
      else (case NewPublicKeyFromHex env (String c ''publicKey'') of
              Inl err \<Rightarrow> Inl (Wrap err ''failed to parse public key'')
            | Inr publicKey \<Rightarrow> Inr publicKey))"

subsection \<open>CreateVRFKey and CreateAndExportWeakVRFKey\<close>

definition CreateVRFKey ::
  "('ks, 'pk, 'key) env \<Rightarrow> Context \<Rightarrow> ('ks, 'pk) world \<Rightarrow> error option \<times> ('ks, 'pk) world" where
  "CreateVRFKey env c w =
     (case getPassword env c w of
        Inl err \<Rightarrow> (Some err, w)
      | Inr password \<Rightarrow>
          (case CreateKey env password w of
             (Inl err, w1) \<Rightarrow> (Some (Wrap err ''while creating new account''), w1)
           | (Inr key, w1) \<Rightarrow>
               (None,
                Print (''Created keypair, with public key\<newline>\<newline>''
                       @ PublicKey_String env key
                       @ ''\<newline>\<newline>The following command will export the encrypted secret key from the db to <save_path>:\<newline>\<newline>chainlink local vrf export -f <save_path> -pk ''
                       @ PublicKey_String env key @ ''\<newline>'') w1)))"

definition CreateAndExportWeakVRFKey ::
  "('ks, 'pk, 'key) env \<Rightarrow> Context \<Rightarrow> ('ks, 'pk) world \<Rightarrow> error option \<times> ('ks, 'pk) world" where
  "CreateAndExportWeakVRFKey env c w =
     (case getPassword env c w of
        Inl err \<Rightarrow> (Some err, w)
      | Inr password \<Rightarrow>
          (case CreateWeakInMemoryEncryptedKeyXXXTestingOnly env password w of
             (Inl err, w1) \<Rightarrow> (Some (Wrap err ''while creating testing key''), w1)
           | (Inr key, w1) \<Rightarrow>
               if \<not> IsSet c ''file'' \<or> \<not> noFileToOverwrite (String c ''file'') w1
               then let errmsg = ''must specify path to key file which does not already exist''
                    in (Some (Errorf errmsg), Println errmsg w1)
               else WriteToDisk env key (String c ''file'')
                      (Println ''Don't use this key for anything sensitive!'' w1)))"

subsection \<open>ImportVRFKey\<close>

definition ImportVRFKey ::
  "('ks, 'pk, 'key) env \<Rightarrow> Context \<Rightarrow> ('ks, 'pk) world \<Rightarrow> error option \<times> ('ks, 'pk) world" where
  "ImportVRFKey env c w =
     (case getPasswordAndKeyFile env c w of
        Inl err \<Rightarrow> (Some err, w)
      | Inr (password, keyjson) \<Rightarrow>
          (case Import env keyjson password w of
             (None, w1) \<Rightarrow> (None, w1)
           | (Some err, w1) \<Rightarrow>
               if err = MatchingVRFKeyError then
                 let w2 = Println ''The database already has an entry for that public key.'' w1
                 in (case json_PublicKey env keyjson of
                       Inl jerr \<Rightarrow>
                         (Some (Wrap jerr (''while extracting public key from '' @ keyjson)),
                          Println ''could not extract public key from json input'' w2)
                     | Inr PublicKey \<Rightarrow>
                         (Some (Wrap err ''while attempting to import key from CL''),
                          Println (''If you want to import the new key anyway, delete the old key with the command\<newline>\<newline>''
                                   @ ''`chainlink local delete -pk '' @ PublicKey @ ''`''
                                   @ ''\<newline>\<newline>(but maybe back it up first, with ''
                                   @ ''chainlink local export -pk <public_key> -f <backup_path>`)'') w2))
               else (Some err, w1)))"

subsection \<open>ExportVRFKey\<close>

text \<open>
  The verb \<^verbatim>\<open>%d\<close> on a loop index (never negative): its decimal digits, without leading
  zeros.
\<close>

definition digit :: "nat \<Rightarrow> char" where
  "digit d = char_of (48 + d)"

fun fmt_d :: "nat \<Rightarrow> string" where
  "fmt_d n = (if n < 10 then [digit n] else fmt_d (n div 10) @ [digit (n mod 10)])"

text \<open>
  The path the loop of \<^verbatim>\<open>ExportVRFKey\<close> writes record \<open>i\<close> to:
  \<^verbatim>\<open>ckeypath := keypath; if i > 0 { ckeypath = fmt.Sprintf("%s.%d", keypath, i) }\<close>.
\<close>

definition ckeypath :: "string \<Rightarrow> nat \<Rightarrow> string" where
  "ckeypath keypath i = (if i > 0 then keypath @ ''.'' @ fmt_d i else keypath)"

text \<open>
  \<^verbatim>\<open>for i, keyjson := range enckeys\<close>, from index \<open>i\<close> on: the first write that fails
  ends the loop with the wrapped error.
\<close>

fun exportLoop ::
  "string \<Rightarrow> nat \<Rightarrow> string list \<Rightarrow> ('ks, 'pk) world \<Rightarrow> error option \<times> ('ks, 'pk) world" where
  "exportLoop keypath i [] w = (None, w)"
| "exportLoop keypath i (keyjson # enckeys) w =
     (case WriteFile (ckeypath keypath i) keyjson w of
        (Some err, w1) \<Rightarrow>
          (Some (Wrap err (''could not save '' @ keyjson @ '' to '' @ ckeypath keypath i)), w1)
      | (None, w1) \<Rightarrow> exportLoop keypath (i + 1) enckeys w1)"

definition getKeys ::
  "('ks, 'pk, 'key) env \<Rightarrow> Context \<Rightarrow> ('ks, 'pk) world
     \<Rightarrow> (error + string list) \<times> ('ks, 'pk) world" where
  "getKeys env c w =
     (case getPublicKey env c of
        Inl err \<Rightarrow> (Inl err, w)
      | Inr publicKey \<Rightarrow>
          (case Export env publicKey w of
             ((enckeys, None), w1) \<Rightarrow> (Inr enckeys, w1)
           | ((enckeys, Some err), w1) \<Rightarrow>
               (Inr enckeys,
                w1\<lparr>logged := logged w1 @
                   [Infow ''while retrieving keys with matching public key'' publicKey err]\<rparr>)))"

definition ExportVRFKey ::
  "('ks, 'pk, 'key) env \<Rightarrow> Context \<Rightarrow> ('ks, 'pk) world \<Rightarrow> error option \<times> ('ks, 'pk) world" where
  "ExportVRFKey env c w =
     (case getKeys env c w of
        (Inl err, w1) \<Rightarrow> (Some err, w1)
      | (Inr enckeys, w1) \<Rightarrow>
          if \<not> IsSet c ''file'' then (Some (Errorf ''must specify file to export to''), w1)
          else exportLoop (String c ''file'') 0 enckeys w1)"

subsection \<open>DeleteVRFKey\<close>

definition DeleteVRFKey ::
  "('ks, 'pk, 'key) env \<Rightarrow> Context \<Rightarrow> ('ks, 'pk) world \<Rightarrow> error option \<times> ('ks, 'pk) world" where
  "DeleteVRFKey env c w =
     (case getPublicKey env c of
        Inl err \<Rightarrow> (Some err, w)
      | Inr publicKey \<Rightarrow>
          (case Delete env publicKey w of
             (None, w1) \<Rightarrow> (None, w1)
           | (Some err, w1) \<Rightarrow>
               (Some err,
                if err = AttemptToDeleteNonExistentKeyFromDB
                then Println (''There is already no entry in the DB for ''
                              @ PublicKey_String env publicKey) w1
                else w1)))"

subsection \<open>Forget\<close>

text \<open>
  \<^verbatim>\<open>func (cli *Client) Forget(c *clipkg.Context) error { return nil }\<close>
\<close>

definition Forget :: "Context \<Rightarrow> ('ks, 'pk) world \<Rightarrow> error option \<times> ('ks, 'pk) world" where
  "Forget c w = (None, w)"

subsection \<open>A sample key store and world\<close>

text \<open>
  A small environment on which the handlers can be run. A serialised record is the JSON
  object with the two string members \<^verbatim>\<open>PublicKey\<close> and \<^verbatim>\<open>Ciphertext\<close>, in this order
  and without white space; \<open>sample_decode\<close> accepts exactly these documents, with
  hexadecimal strings as values, and rejects every other input.
\<close>

definition quoted :: "string \<Rightarrow> string" where
  "quoted s = CHR 0x22 # s @ [CHR 0x22]"

definition sample_record :: "string \<Rightarrow> string \<Rightarrow> string" where
  "sample_record publicKey ciphertext =
     ''{'' @ quoted ''PublicKey'' @ '':'' @ quoted publicKey @ '',''
       @ quoted ''Ciphertext'' @ '':'' @ quoted ciphertext @ ''}''"

definition expect :: "string \<Rightarrow> string \<Rightarrow> string option" where
  "expect literal s =
     (if take (length literal) s = literal then Some (drop (length literal) s) else None)"

definition hex_prefix :: "string \<Rightarrow> string" where
  "hex_prefix s = takeWhile (\<lambda>ch. ch \<in> set ''0123456789abcdefx'') s"

definition sample_decode :: "string \<Rightarrow> (string \<times> string) option" where
  "sample_decode keyjson =
     (case expect (''{'' @ quoted ''PublicKey'' @ '':'' @ [CHR 0x22]) keyjson of
        None \<Rightarrow> None
      | Some rest1 \<Rightarrow>
          (case expect ([CHR 0x22] @ '','' @ quoted ''Ciphertext'' @ '':'' @ [CHR 0x22])
                  (drop (length (hex_prefix rest1)) rest1) of
             None \<Rightarrow> None
           | Some rest2 \<Rightarrow>
               if drop (length (hex_prefix rest2)) rest2 = [CHR 0x22] @ ''}''
               then Some (hex_prefix rest1, hex_prefix rest2)
               else None))"

text \<open>
  The key store is a list of rows (public key, serialised record); a row with an empty
  record cannot be read. It imports a record that decodes and whose public key is in no
  row. A password file holds the password; the empty password is refused.
\<close>

definition sample_env :: "((string \<times> string) list, string, string) env" where
  "sample_env =
     \<lparr> passwordFromFile =
         (\<lambda>path fs. case fs path of
                       None \<Rightarrow> Inl (OtherError ''no such file'')
                     | Some data \<Rightarrow> Inr data),
       NewPublicKeyFromHex =
         (\<lambda>hex. if hex = [] then Inl (OtherError ''empty'') else Inr hex),
       PublicKey_String = (\<lambda>publicKey. publicKey),
       json_PublicKey =
         (\<lambda>keyjson. case sample_decode keyjson of
                       None \<Rightarrow> Inl (OtherError ''invalid character'')
                     | Some (publicKey, ciphertext) \<Rightarrow> Inr publicKey),
       key_JSON = (\<lambda>key. key),
       ks_CreateKey =
         (\<lambda>password rows.
            if password = [] then (Inl (OtherError ''empty password''), rows)
            else (Inr ''0x0a'', rows @ [(''0x0a'', sample_record ''0x0a'' ''f00d'')])),
       ks_Import =
         (\<lambda>keyjson password rows.
            case sample_decode keyjson of
              None \<Rightarrow> (Some (OtherError ''could not parse the key''), rows)
            | Some (publicKey, ciphertext) \<Rightarrow>
                if publicKey \<in> set (map fst rows) then (Some MatchingVRFKeyError, rows)
                else (None, rows @ [(publicKey, keyjson)])),
       ks_Export =
         (\<lambda>publicKey rows.
            ((filter (\<lambda>data. data \<noteq> [])
                (map snd (filter (\<lambda>row. fst row = publicKey) rows)),
              if publicKey \<notin> set (map fst rows) then Some (OtherError ''no such key'')
              else if (publicKey, []) \<in> set rows then Some (OtherError ''unreadable record'')
              else None),
             rows)),
       ks_Delete =
         (\<lambda>publicKey rows.
            if publicKey \<in> set (map fst rows)
            then (None, filter (\<lambda>row. fst row \<noteq> publicKey) rows)
            else (Some AttemptToDeleteNonExistentKeyFromDB, rows)),
       weakKey =
         (\<lambda>password rows.
            if password = [] then Inl (OtherError ''empty password'')
            else Inr (sample_record ''0x0b'' ''beef'')) \<rparr>"

text \<open>
  The world holds two password files, a key file with a record for the public key
  \<^verbatim>\<open>0x01\<close>, a file that is not JSON and a directory. The path \<^verbatim>\<open>b.json.1\<close> cannot be
  written. The key store holds three records for \<^verbatim>\<open>0x01\<close> and two for \<^verbatim>\<open>0x02\<close>, one
  of them unreadable.
\<close>

definition sample_world :: "((string \<times> string) list, string) world" where
  "sample_world =
     \<lparr> files = [''pw.txt'' \<mapsto> ''hunter2'', ''empty.txt'' \<mapsto> [],
                ''key.json'' \<mapsto> sample_record ''0x01'' ''eee'',
                ''notes.txt'' \<mapsto> ''0x01:eee''],
       others = (\<lambda>path. if path = ''keys'' then Directory else Nothing),
       writeError =
         (\<lambda>path. if path = ''b.json.1'' then Some (OtherError ''permission denied'') else None),
       stdout = [],
       logged = [],
       ks = [(''0x01'', sample_record ''0x01'' ''aaa''),
             (''0x01'', sample_record ''0x01'' ''bbb''),
             (''0x01'', sample_record ''0x01'' ''ccc''),
             (''0x02'', sample_record ''0x02'' ''ddd''), (''0x02'', [])],
       calls = [] \<rparr>"

section \<open>Auxiliary facts\<close>

lemmas flag_defs = IsSet_def String_def
lemmas print_defs = Println_def Print_def
lemmas ks_defs = CreateKey_def Import_def Export_def Delete_def
  CreateWeakInMemoryEncryptedKeyXXXTestingOnly_def

subsection \<open>Looking for a file to overwrite\<close>

lemma noFileToOverwrite_iff:
  "noFileToOverwrite path w \<longleftrightarrow> files w path = None \<and> others w path = Nothing"
  by (simp add: noFileToOverwrite_def IsNotExist_def Stat_def
        split: option.splits other_entry.splits)

lemma file_to_overwrite: "files w path \<noteq> None \<Longrightarrow> \<not> noFileToOverwrite path w"
  by (simp add: noFileToOverwrite_iff)

subsection \<open>Decimal digits and the export paths\<close>

declare fmt_d.simps [simp del]

lemma digit_inj: "a < 10 \<Longrightarrow> b < 10 \<Longrightarrow> digit a = digit b \<Longrightarrow> a = b"
  by (simp add: digit_def char_of_eq_iff take_bit_eq_mod)

lemma fmt_d_small: "n < 10 \<Longrightarrow> fmt_d n = [digit n]"
  by (simp add: fmt_d.simps)

lemma fmt_d_large: "\<not> n < 10 \<Longrightarrow> fmt_d n = fmt_d (n div 10) @ [digit (n mod 10)]"
  by (subst fmt_d.simps) simp

lemma fmt_d_not_Nil: "fmt_d n \<noteq> []"
  by (cases "n < 10") (simp_all add: fmt_d_small fmt_d_large)

lemma fmt_d_inj: "fmt_d n = fmt_d m \<Longrightarrow> n = m"
proof (induction n arbitrary: m rule: fmt_d.induct)
  case (1 n)
  show ?case
  proof (cases "n < 10")
    case small: True
    show ?thesis
    proof (cases "m < 10")
      case True
      with small "1.prems" show ?thesis
        by (simp add: fmt_d_small digit_inj)
    next
      case False
      with small "1.prems" fmt_d_not_Nil [of "m div 10"] show ?thesis
        by (simp add: fmt_d_small fmt_d_large)
    qed
  next
    case large: False
    show ?thesis
    proof (cases "m < 10")
      case True
      with large "1.prems" fmt_d_not_Nil [of "n div 10"] show ?thesis
        by (simp add: fmt_d_small fmt_d_large)
    next
      case False
      with large "1.prems" have q: "fmt_d (n div 10) = fmt_d (m div 10)"
        and r: "digit (n mod 10) = digit (m mod 10)"
        by (simp_all add: fmt_d_large)
      from "1.IH" [OF large q] have "n div 10 = m div 10" .
      moreover from r have "n mod 10 = m mod 10"
        by (intro digit_inj) simp_all
      ultimately show ?thesis
        by (metis div_mult_mod_eq)
    qed
  qed
qed

lemma ckeypath_inj: "ckeypath keypath i = ckeypath keypath j \<Longrightarrow> i = j"
  using fmt_d_inj by (auto simp: ckeypath_def split: if_splits)

subsection \<open>The export loop\<close>

lemma WriteFile_ok:
  "writeError w path = None \<Longrightarrow>
     WriteFile path data w = (None, w\<lparr>files := (files w)(path \<mapsto> data)\<rparr>)"
  by (simp add: WriteFile_def)

lemma WriteFile_fails:
  "writeError w path = Some e \<Longrightarrow> WriteFile path data w = (Some e, w)"
  by (simp add: WriteFile_def)

lemma exportLoop_frame:
  "(\<And>j. j < length enckeys \<Longrightarrow> path \<noteq> ckeypath keypath (i + j)) \<Longrightarrow>
     files (snd (exportLoop keypath i enckeys w)) path = files w path"
proof (induction enckeys arbitrary: i w)
  case Nil
  show ?case by simp
next
  case (Cons keyjson enckeys)
  from Cons.prems [of 0] have first: "path \<noteq> ckeypath keypath i" by simp
  have rest: "\<And>j. j < length enckeys \<Longrightarrow> path \<noteq> ckeypath keypath (Suc i + j)"
    using Cons.prems [of "Suc j" for j] by simp
  show ?case
  proof (cases "writeError w (ckeypath keypath i)")
    case None
    then show ?thesis
      using Cons.IH [OF rest, of "w\<lparr>files := (files w)(ckeypath keypath i \<mapsto> keyjson)\<rparr>"] first
      by (simp add: WriteFile_ok)
  next
    case (Some e)
    then show ?thesis by (simp add: WriteFile_fails)
  qed
qed

lemma exportLoop_succeeds:
  "(\<And>j. j < length enckeys \<Longrightarrow> writeError w (ckeypath keypath (i + j)) = None) \<Longrightarrow>
     fst (exportLoop keypath i enckeys w) = None"
proof (induction enckeys arbitrary: i w)
  case Nil
  show ?case by simp
next
  case (Cons keyjson enckeys)
  from Cons.prems [of 0] have first: "writeError w (ckeypath keypath i) = None" by simp
  have rest: "\<And>j. j < length enckeys \<Longrightarrow>
      writeError (w\<lparr>files := (files w)(ckeypath keypath i \<mapsto> keyjson)\<rparr>)
        (ckeypath keypath (Suc i + j)) = None"
    using Cons.prems [of "Suc j" for j] by simp
  show ?case
    using Cons.IH [OF rest] first by (simp add: WriteFile_ok)
qed

lemma exportLoop_written:
  "fst (exportLoop keypath i enckeys w) = None \<Longrightarrow> j < length enckeys \<Longrightarrow>
     files (snd (exportLoop keypath i enckeys w)) (ckeypath keypath (i + j)) = Some (enckeys ! j)"
proof (induction enckeys arbitrary: i j w)
  case Nil
  then show ?case by simp
next
  case (Cons keyjson enckeys)
  let ?w1 = "w\<lparr>files := (files w)(ckeypath keypath i \<mapsto> keyjson)\<rparr>"
  from Cons.prems(1) have first: "writeError w (ckeypath keypath i) = None"
    by (cases "writeError w (ckeypath keypath i)") (simp_all add: WriteFile_fails)
  then have step: "exportLoop keypath i (keyjson # enckeys) w = exportLoop keypath (Suc i) enckeys ?w1"
    by (simp add: WriteFile_ok)
  with Cons.prems(1) have ok: "fst (exportLoop keypath (Suc i) enckeys ?w1) = None" by simp
  show ?case
  proof (cases j)
    case 0
    have "files (snd (exportLoop keypath (Suc i) enckeys ?w1)) (ckeypath keypath i)
        = files ?w1 (ckeypath keypath i)"
      by (rule exportLoop_frame) (auto dest: ckeypath_inj)
    with 0 step show ?thesis by simp
  next
    case (Suc j')
    with Cons.prems(2) have "j' < length enckeys" by simp
    from Cons.IH [OF ok this] Suc step show ?thesis by simp
  qed
qed

lemma exportLoop_stops:
  "n < length enckeys \<Longrightarrow>
   (\<And>j. j < n \<Longrightarrow> writeError w (ckeypath keypath (i + j)) = None) \<Longrightarrow>
   writeError w (ckeypath keypath (i + n)) = Some e \<Longrightarrow>
     exportLoop keypath i enckeys w =
       (Some (Wrap e (''could not save '' @ enckeys ! n @ '' to '' @ ckeypath keypath (i + n))),
        snd (exportLoop keypath i (take n enckeys) w))"
proof (induction enckeys arbitrary: i n w)
  case Nil
  then show ?case by simp
next
  case (Cons keyjson enckeys)
  show ?case
  proof (cases n)
    case 0
    with Cons.prems(3) show ?thesis by (simp add: WriteFile_fails)
  next
    case (Suc n')
    let ?w1 = "w\<lparr>files := (files w)(ckeypath keypath i \<mapsto> keyjson)\<rparr>"
    from Suc Cons.prems(2) [of 0] have first: "writeError w (ckeypath keypath i) = None" by simp
    from Suc Cons.prems(1) have len: "n' < length enckeys" by simp
    have before: "\<And>j. j < n' \<Longrightarrow> writeError ?w1 (ckeypath keypath (Suc i + j)) = None"
      using Cons.prems(2) [of "Suc j" for j] Suc by simp
    have at: "writeError ?w1 (ckeypath keypath (Suc i + n')) = Some e"
      using Cons.prems(3) Suc by simp
    from Cons.IH [OF len before at] first Suc show ?thesis
      by (simp add: WriteFile_ok)
  qed
qed


lemma getKeys_fields:
  "files (snd (getKeys env c w)) = files w \<and>
   writeError (snd (getKeys env c w)) = writeError w"
  by (simp add: getKeys_def Export_def split: sum.splits prod.splits option.splits)

lemma ExportVRFKey_loop:
  "fst (getKeys env c w) = Inr enckeys \<Longrightarrow> c ''file'' = Some keypath \<Longrightarrow>
     ExportVRFKey env c w = exportLoop keypath 0 enckeys (snd (getKeys env c w))"
  by (cases "getKeys env c w") (simp add: ExportVRFKey_def flag_defs)

subsection \<open>Reading the password\<close>

lemma no_password_flag:
  "c ''password'' = None \<Longrightarrow> getPassword env c w = Inl (Errorf ''must specify password file'')"
  by (simp add: getPassword_def IsSet_def)

lemma password_read:
  "c ''password'' = Some path \<Longrightarrow> passwordFromFile env path (files w) = Inr password \<Longrightarrow>
     getPassword env c w = Inr password"
  by (simp add: getPassword_def flag_defs)

lemma CreateVRFKey_password:
  "getPassword env c w = Inr password \<Longrightarrow>
     calls (snd (CreateVRFKey env c w)) = calls w @ [CallCreateKey password] \<and>
     files (snd (CreateVRFKey env c w)) = files w"
  by (simp add: CreateVRFKey_def CreateKey_def Print_def split: prod.splits sum.splits)

lemma CreateAndExportWeakVRFKey_password:
  "getPassword env c w = Inr password \<Longrightarrow>
     calls (snd (CreateAndExportWeakVRFKey env c w)) = calls w @ [CallCreateWeak password] \<and>
     (files (snd (CreateAndExportWeakVRFKey env c w)) = files w \<or>
      (\<exists>key. weakKey env password (ks w) = Inr key \<and>
             files (snd (CreateAndExportWeakVRFKey env c w))
               = (files w)(String c ''file'' \<mapsto> key_JSON env key)))"
  by (auto simp: CreateAndExportWeakVRFKey_def ks_defs print_defs Let_def WriteToDisk_def
        WriteFile_def split: sum.splits option.splits)

lemma ImportVRFKey_password:
  "getPassword env c w = Inr password \<Longrightarrow>
     calls (snd (ImportVRFKey env c w)) =
       (case getPasswordAndKeyFile env c w of
          Inl err \<Rightarrow> calls w
        | Inr (p, keyjson) \<Rightarrow> calls w @ [CallImport keyjson password]) \<and>
     files (snd (ImportVRFKey env c w)) = files w"
  by (auto simp: ImportVRFKey_def getPasswordAndKeyFile_def Import_def print_defs Let_def
        split: sum.splits option.splits prod.splits)

lemma CreateVRFKey_effects:
  "getPassword env c w = Inr password \<Longrightarrow>
     logged (snd (CreateVRFKey env c w)) = logged w \<and>
     ks (snd (CreateVRFKey env c w)) = snd (ks_CreateKey env password (ks w)) \<and>
     stdout (snd (CreateVRFKey env c w)) =
       stdout w @
         (case fst (ks_CreateKey env password (ks w)) of
            Inl err \<Rightarrow> []
          | Inr key \<Rightarrow>
              ''Created keypair, with public key\<newline>\<newline>''
                @ PublicKey_String env key
                @ ''\<newline>\<newline>The following command will export the encrypted secret key from the db to <save_path>:\<newline>\<newline>chainlink local vrf export -f <save_path> -pk ''
                @ PublicKey_String env key @ ''\<newline>'')"
  by (simp add: CreateVRFKey_def CreateKey_def Print_def split: prod.splits sum.splits)

lemma CreateAndExportWeakVRFKey_effects:
  "getPassword env c w = Inr password \<Longrightarrow>
     logged (snd (CreateAndExportWeakVRFKey env c w)) = logged w \<and>
     ks (snd (CreateAndExportWeakVRFKey env c w)) = ks w \<and>
     stdout (snd (CreateAndExportWeakVRFKey env c w)) =
       stdout w @
         (case weakKey env password (ks w) of
            Inl err \<Rightarrow> []
          | Inr key \<Rightarrow>
              if c ''file'' = None \<or> \<not> noFileToOverwrite (String c ''file'') w
              then ''must specify path to key file which does not already exist\<newline>''
              else ''Don't use this key for anything sensitive!\<newline>'')"
  by (auto simp: CreateAndExportWeakVRFKey_def ks_defs print_defs IsSet_def Let_def
        noFileToOverwrite_iff WriteToDisk_def WriteFile_def split: sum.splits option.splits)

lemma ImportVRFKey_effects:
  "getPassword env c w = Inr password \<Longrightarrow>
     logged (snd (ImportVRFKey env c w)) = logged w \<and>
     ks (snd (ImportVRFKey env c w)) =
       (case getPasswordAndKeyFile env c w of
          Inl err \<Rightarrow> ks w
        | Inr (p, keyjson) \<Rightarrow> snd (ks_Import env keyjson password (ks w))) \<and>
     stdout (snd (ImportVRFKey env c w)) =
       stdout w @
         (case getPasswordAndKeyFile env c w of
            Inl err \<Rightarrow> []
          | Inr (p, keyjson) \<Rightarrow>
              if fst (ks_Import env keyjson password (ks w)) = Some MatchingVRFKeyError
              then ''The database already has an entry for that public key.\<newline>''
                   @ (case json_PublicKey env keyjson of
                        Inl jerr \<Rightarrow> ''could not extract public key from json input\<newline>''
                      | Inr PublicKey \<Rightarrow>
                          ''If you want to import the new key anyway, delete the old key with the command\<newline>\<newline>''
                            @ ''`chainlink local delete -pk '' @ PublicKey @ ''`''
                            @ ''\<newline>\<newline>(but maybe back it up first, with ''
                            @ ''chainlink local export -pk <public_key> -f <backup_path>`)\<newline>'')
              else [])"
  by (auto simp: ImportVRFKey_def getPasswordAndKeyFile_def Import_def print_defs Let_def
        split: sum.splits option.splits prod.splits)

subsection \<open>The sample environment\<close>

lemma sample_record_not_Nil: "sample_record publicKey ciphertext \<noteq> []"
  by (simp add: sample_record_def)

lemma sample_decode_key_file:
  "sample_decode (sample_record ''0x01'' ''eee'') = Some (''0x01'', ''eee'')"
  by code_simp

lemma sample_decode_notes: "sample_decode ''0x01:eee'' = None"
  by code_simp

lemmas sample_defs = sample_env_def sample_world_def sample_record_not_Nil
  sample_decode_key_file sample_decode_notes

lemma sample_paths:
  "ckeypath ''a.json'' 0 = ''a.json''" "ckeypath ''a.json'' (Suc 0) = ''a.json.1''"
  "ckeypath ''a.json'' 2 = ''a.json.2''"
  "ckeypath ''b.json'' 0 = ''b.json''" "ckeypath ''b.json'' (Suc 0) = ''b.json.1''"
  "ckeypath ''b.json'' 2 = ''b.json.2''"
  by code_simp+

lemma sample_getPublicKey:
  "hex \<noteq> [] \<Longrightarrow> getPublicKey sample_env ((c :: Context)(''publicKey'' \<mapsto> hex)) = Inr hex"
  by (simp add: getPublicKey_def flag_defs sample_env_def)

lemma sample_getKeys_0x01:
  "fst (getKeys sample_env [''publicKey'' \<mapsto> ''0x01'', ''file'' \<mapsto> path] sample_world)
     = Inr [sample_record ''0x01'' ''aaa'', sample_record ''0x01'' ''bbb'', sample_record ''0x01'' ''ccc'']"
  by (simp add: getKeys_def getPublicKey_def Export_def flag_defs sample_defs)

lemma sample_getPassword:
  "getPassword sample_env ((c :: Context)(''password'' \<mapsto> ''pw.txt'')) sample_world = Inr ''hunter2''"
  "getPassword sample_env ((c :: Context)(''password'' \<mapsto> ''empty.txt'')) sample_world = Inr []"
  by (simp_all add: getPassword_def flag_defs sample_defs)

section \<open>Properties\<close>

text \<open>
  C1 (as amended). Whatever the key store's export reports for a public key (no record, or
  an error next to the records it could read), \<open>getKeys\<close> does not fail: it returns the
  records the key store returned and, when there is an error, logs it with the public key.
  With a target file given and no failing write, \<open>ExportVRFKey\<close> then returns no error;
  with no record and a target file given, it returns no error and leaves the files as they
  are.
\<close>

theorem getKeys_tolerates_errors:
  assumes pk: "getPublicKey env c = Inr publicKey"
    and ex: "ks_Export env publicKey (ks w) = ((enckeys, err), s)"
  shows "fst (getKeys env c w) = Inr enckeys \<and>
         logged (snd (getKeys env c w)) =
           logged w @ (case err of None \<Rightarrow> []
                       | Some e \<Rightarrow> [Infow ''while retrieving keys with matching public key'' publicKey e]) \<and>
         (c ''file'' = Some keypath \<and>
          (\<forall>i<length enckeys. writeError w (ckeypath keypath i) = None) \<longrightarrow>
            fst (ExportVRFKey env c w) = None) \<and>
         (enckeys = [] \<and> c ''file'' \<noteq> None \<longrightarrow>
            fst (ExportVRFKey env c w) = None \<and>
            files (snd (ExportVRFKey env c w)) = files w)"
proof -
  from pk ex have keys: "fst (getKeys env c w) = Inr enckeys"
    by (simp add: getKeys_def Export_def split: option.splits)
  from pk ex have log: "logged (snd (getKeys env c w)) =
      logged w @ (case err of None \<Rightarrow> []
                  | Some e \<Rightarrow> [Infow ''while retrieving keys with matching public key'' publicKey e])"
    by (simp add: getKeys_def Export_def split: option.splits)
  have writes: "fst (ExportVRFKey env c w) = None"
    if tgt: "c ''file'' = Some keypath"
      and writable: "\<forall>i<length enckeys. writeError w (ckeypath keypath i) = None"
  proof -
    have "fst (exportLoop keypath 0 enckeys (snd (getKeys env c w))) = None"
      by (rule exportLoop_succeeds) (use getKeys_fields [of env c w] writable in simp)
    with ExportVRFKey_loop [OF keys tgt] show ?thesis by simp
  qed
  have none: "fst (ExportVRFKey env c w) = None \<and> files (snd (ExportVRFKey env c w)) = files w"
    if "enckeys = []" and "c ''file'' \<noteq> None"
  proof -
    from that(2) obtain path where tgt: "c ''file'' = Some path" by blast
    from ExportVRFKey_loop [OF keys tgt] that(1) getKeys_fields [of env c w]
    show ?thesis by simp
  qed
  from keys log writes none show ?thesis by blast
qed

theorem getKeys_tolerates_errors_witness:
  "fst (getKeys sample_env [''publicKey'' \<mapsto> ''0x02'', ''file'' \<mapsto> ''d.json''] sample_world)
     = Inr [sample_record ''0x02'' ''ddd''] \<and>
   logged (snd (getKeys sample_env [''publicKey'' \<mapsto> ''0x02'', ''file'' \<mapsto> ''d.json'']
                  sample_world)) =
     [Infow ''while retrieving keys with matching public key'' ''0x02''
        (OtherError ''unreadable record'')] \<and>
   fst (ExportVRFKey sample_env [''publicKey'' \<mapsto> ''0x02'', ''file'' \<mapsto> ''d.json'']
          sample_world) = None \<and>
   fst (ExportVRFKey sample_env [''file'' \<mapsto> ''c.json'', ''publicKey'' \<mapsto> ''0x09'']
          sample_world) = None \<and>
   files (snd (ExportVRFKey sample_env [''file'' \<mapsto> ''c.json'', ''publicKey'' \<mapsto> ''0x09'']
            sample_world)) = files sample_world"
proof -
  let ?c2 = "[''publicKey'' \<mapsto> ''0x02'', ''file'' \<mapsto> ''d.json'']"
  let ?c9 = "[''file'' \<mapsto> ''c.json'', ''publicKey'' \<mapsto> ''0x09'']"
  have pk2: "getPublicKey sample_env ?c2 = Inr ''0x02''"
    by (simp add: getPublicKey_def flag_defs sample_env_def)
  have ex2: "ks_Export sample_env ''0x02'' (ks sample_world) =
      (([sample_record ''0x02'' ''ddd''], Some (OtherError ''unreadable record'')), ks sample_world)"
    by (simp add: sample_defs)
  have writable: "?c2 ''file'' = Some ''d.json'' \<and>
      (\<forall>i<length [sample_record ''0x02'' ''ddd'']. writeError sample_world (ckeypath ''d.json'' i) = None)"
    by (simp add: sample_world_def ckeypath_def)
  have pk9: "getPublicKey sample_env ?c9 = Inr ''0x09''"
    by (simp add: sample_getPublicKey)
  have ex9: "ks_Export sample_env ''0x09'' (ks sample_world) =
      (([], Some (OtherError ''no such key'')), ks sample_world)"
    by (simp add: sample_defs)
  have set9: "?c9 ''file'' \<noteq> None" by simp
  have l0: "logged sample_world = []" by (simp add: sample_defs)
  note inst2 = getKeys_tolerates_errors [OF pk2 ex2, of "''d.json''"]
  note inst9 = getKeys_tolerates_errors [OF pk9 ex9]
  from inst2 writable l0 have
    "fst (getKeys sample_env ?c2 sample_world) = Inr [sample_record ''0x02'' ''ddd''] \<and>
     logged (snd (getKeys sample_env ?c2 sample_world)) =
       [Infow ''while retrieving keys with matching public key'' ''0x02''
          (OtherError ''unreadable record'')] \<and>
     fst (ExportVRFKey sample_env ?c2 sample_world) = None"
    by simp
  moreover from inst9 set9 have
    "fst (ExportVRFKey sample_env ?c9 sample_world) = None \<and>
     files (snd (ExportVRFKey sample_env ?c9 sample_world)) = files sample_world"
    by blast
  ultimately show ?thesis by simp
qed

text \<open>
  The key store finds no record for the public key \<^verbatim>\<open>0x09\<close> and says so; \<open>ExportVRFKey\<close>
  logs the error and returns \<^verbatim>\<open>nil\<close>.
\<close>

theorem ExportVRFKey_no_record_counterexample:
  "ks_Export sample_env ''0x09'' (ks sample_world) =
     (([], Some (OtherError ''no such key'')), ks sample_world) \<and>
   ExportVRFKey sample_env [''publicKey'' \<mapsto> ''0x09'', ''file'' \<mapsto> ''c.json''] sample_world =
     (None, sample_world
        \<lparr>logged := [Infow ''while retrieving keys with matching public key'' ''0x09''
                      (OtherError ''no such key'')],
         calls := [CallExport ''0x09'']\<rparr>)"
  by (simp add: ExportVRFKey_def getKeys_def getPublicKey_def Export_def flag_defs sample_defs)

text \<open>
  C2 (as amended). Whenever no target file is given or \<open>noFileToOverwrite\<close> fails for the
  target path (a file is there, or a directory, or the lookup fails otherwise),
  \<open>CreateAndExportWeakVRFKey\<close> fails, writes no file and leaves the key store as it is.
  When the password has been read and the key store has generated the weak key, the error
  is "must specify path to key file which does not already exist", printed as well: the
  key has been generated by then (the call to the key store has been made). When the key
  store cannot generate the key, the error is its error, wrapped; when the password cannot
  be read, the error is that of \<open>getPassword\<close> and the world is as it was.
\<close>

theorem CreateAndExportWeakVRFKey_refuses_after_generating:
  assumes "c ''file'' = None \<or> \<not> noFileToOverwrite (String c ''file'') w"
  shows "fst (CreateAndExportWeakVRFKey env c w) \<noteq> None \<and>
         files (snd (CreateAndExportWeakVRFKey env c w)) = files w \<and>
         ks (snd (CreateAndExportWeakVRFKey env c w)) = ks w \<and>
         (getPassword env c w = Inr password \<and> weakKey env password (ks w) = Inr key \<longrightarrow>
            fst (CreateAndExportWeakVRFKey env c w) =
              Some (Errorf ''must specify path to key file which does not already exist'') \<and>
            calls (snd (CreateAndExportWeakVRFKey env c w)) = calls w @ [CallCreateWeak password] \<and>
            stdout (snd (CreateAndExportWeakVRFKey env c w)) =
              stdout w @ ''must specify path to key file which does not already exist\<newline>'') \<and>
         (getPassword env c w = Inr password \<and> weakKey env password (ks w) = Inl err \<longrightarrow>
            fst (CreateAndExportWeakVRFKey env c w) =
              Some (Wrap err ''while creating testing key'') \<and>
            calls (snd (CreateAndExportWeakVRFKey env c w)) = calls w @ [CallCreateWeak password] \<and>
            stdout (snd (CreateAndExportWeakVRFKey env c w)) = stdout w) \<and>
         (getPassword env c w = Inl err \<longrightarrow>
            CreateAndExportWeakVRFKey env c w = (Some err, w))"
  using assms
  by (auto simp: CreateAndExportWeakVRFKey_def ks_defs print_defs IsSet_def
        noFileToOverwrite_iff Let_def split: sum.splits)

theorem CreateAndExportWeakVRFKey_refuses_after_generating_witness:
  "fst (CreateAndExportWeakVRFKey sample_env [''file'' \<mapsto> ''key.json'', ''password'' \<mapsto> ''pw.txt'']
          sample_world) =
     Some (Errorf ''must specify path to key file which does not already exist'') \<and>
   calls (snd (CreateAndExportWeakVRFKey sample_env
                 [''file'' \<mapsto> ''key.json'', ''password'' \<mapsto> ''pw.txt''] sample_world)) =
     [CallCreateWeak ''hunter2''] \<and>
   files (snd (CreateAndExportWeakVRFKey sample_env
                 [''file'' \<mapsto> ''key.json'', ''password'' \<mapsto> ''pw.txt''] sample_world)) =
     files sample_world \<and>
   stdout (snd (CreateAndExportWeakVRFKey sample_env
                 [''file'' \<mapsto> ''key.json'', ''password'' \<mapsto> ''pw.txt''] sample_world)) =
     ''must specify path to key file which does not already exist\<newline>'' \<and>
   fst (CreateAndExportWeakVRFKey sample_env [''file'' \<mapsto> ''keys'', ''password'' \<mapsto> ''pw.txt'']
          sample_world) =
     Some (Errorf ''must specify path to key file which does not already exist'') \<and>
   files (snd (CreateAndExportWeakVRFKey sample_env
                 [''file'' \<mapsto> ''keys'', ''password'' \<mapsto> ''pw.txt''] sample_world)) =
     files sample_world \<and>
   fst (CreateAndExportWeakVRFKey sample_env [''password'' \<mapsto> ''empty.txt''] sample_world) =
     Some (Wrap (OtherError ''empty password'') ''while creating testing key'') \<and>
   files (snd (CreateAndExportWeakVRFKey sample_env [''password'' \<mapsto> ''empty.txt'']
                 sample_world)) = files sample_world \<and>
   CreateAndExportWeakVRFKey sample_env Map.empty sample_world =
     (Some (Errorf ''must specify password file''), sample_world)"
proof -
  let ?c1 = "[''file'' \<mapsto> ''key.json'', ''password'' \<mapsto> ''pw.txt'']"
  let ?c2 = "[''file'' \<mapsto> ''keys'', ''password'' \<mapsto> ''pw.txt'']"
  let ?c3 = "[''password'' \<mapsto> ''empty.txt'']"
  let ?c4 = "Map.empty :: Context"
  have s0: "stdout sample_world = []" "calls sample_world = []"
    by (simp_all add: sample_defs)
  have key: "weakKey sample_env ''hunter2'' (ks sample_world) = Inr (sample_record ''0x0b'' ''beef'')"
    by (simp add: sample_defs)
  have nokey: "weakKey sample_env [] (ks sample_world) = Inl (OtherError ''empty password'')"
    by (simp add: sample_defs)
  have pw1: "getPassword sample_env ?c1 sample_world = Inr ''hunter2''"
    and pw2: "getPassword sample_env ?c2 sample_world = Inr ''hunter2''"
    and pw3: "getPassword sample_env ?c3 sample_world = Inr []"
    by (simp_all add: sample_getPassword)
  have pw4: "getPassword sample_env ?c4 sample_world = Inl (Errorf ''must specify password file'')"
    by (simp add: no_password_flag)
  have t1: "?c1 ''file'' = None \<or> \<not> noFileToOverwrite (String ?c1 ''file'') sample_world"
    by (simp add: String_def noFileToOverwrite_iff sample_defs)
  have t2: "?c2 ''file'' = None \<or> \<not> noFileToOverwrite (String ?c2 ''file'') sample_world"
    by (simp add: String_def noFileToOverwrite_iff sample_defs)
  have t3: "?c3 ''file'' = None \<or> \<not> noFileToOverwrite (String ?c3 ''file'') sample_world"
    by simp
  have t4: "?c4 ''file'' = None \<or> \<not> noFileToOverwrite (String ?c4 ''file'') sample_world"
    by simp
  note i1 = CreateAndExportWeakVRFKey_refuses_after_generating [of ?c1 sample_world sample_env "''hunter2''" "sample_record ''0x0b'' ''beef''", OF t1]
  note i2 = CreateAndExportWeakVRFKey_refuses_after_generating [of ?c2 sample_world sample_env "''hunter2''" "sample_record ''0x0b'' ''beef''", OF t2]
  note i3 = CreateAndExportWeakVRFKey_refuses_after_generating [of ?c3 sample_world sample_env "[]" _ "OtherError ''empty password''", OF t3]
  note i4 = CreateAndExportWeakVRFKey_refuses_after_generating [of ?c4 sample_world sample_env _ _ "Errorf ''must specify password file''", OF t4]
  from i1 pw1 key s0 have r1:
    "fst (CreateAndExportWeakVRFKey sample_env ?c1 sample_world) =
       Some (Errorf ''must specify path to key file which does not already exist'') \<and>
     calls (snd (CreateAndExportWeakVRFKey sample_env ?c1 sample_world)) =
       [CallCreateWeak ''hunter2''] \<and>
     files (snd (CreateAndExportWeakVRFKey sample_env ?c1 sample_world)) = files sample_world \<and>
     stdout (snd (CreateAndExportWeakVRFKey sample_env ?c1 sample_world)) =
       ''must specify path to key file which does not already exist\<newline>''"
    by simp
  from i2 pw2 key have r2:
    "fst (CreateAndExportWeakVRFKey sample_env ?c2 sample_world) =
       Some (Errorf ''must specify path to key file which does not already exist'') \<and>
     files (snd (CreateAndExportWeakVRFKey sample_env ?c2 sample_world)) = files sample_world"
    by simp
  from i3 pw3 nokey have r3:
    "fst (CreateAndExportWeakVRFKey sample_env ?c3 sample_world) =
       Some (Wrap (OtherError ''empty password'') ''while creating testing key'') \<and>
     files (snd (CreateAndExportWeakVRFKey sample_env ?c3 sample_world)) = files sample_world"
    by simp
  from i4 pw4 have r4:
    "CreateAndExportWeakVRFKey sample_env ?c4 sample_world =
       (Some (Errorf ''must specify password file''), sample_world)"
    by simp
  from r1 r2 r3 r4 show ?thesis by simp
qed

text \<open>
  Without a target file, the key store is asked for a key before the handler refuses; when
  the key store cannot generate the key, its error is returned instead of the refusal; and
  without a password file the error is that of the missing password file.
\<close>

theorem CreateAndExportWeakVRFKey_generates_first_counterexample:
  "CreateAndExportWeakVRFKey sample_env [''password'' \<mapsto> ''pw.txt''] sample_world =
     (Some (Errorf ''must specify path to key file which does not already exist''),
      sample_world
        \<lparr>stdout := ''must specify path to key file which does not already exist\<newline>'',
         calls := [CallCreateWeak ''hunter2'']\<rparr>) \<and>
   CreateAndExportWeakVRFKey sample_env [''password'' \<mapsto> ''empty.txt''] sample_world =
     (Some (Wrap (OtherError ''empty password'') ''while creating testing key''),
      sample_world\<lparr>calls := [CallCreateWeak []]\<rparr>) \<and>
   CreateAndExportWeakVRFKey sample_env Map.empty sample_world =
     (Some (Errorf ''must specify password file''), sample_world)"
  by (simp add: CreateAndExportWeakVRFKey_def getPassword_def ks_defs print_defs flag_defs
        sample_defs)

text \<open>
  C3. When no write fails, \<open>ExportVRFKey\<close> returns no error and record \<open>i\<close> of the \<open>N\<close>
  records of the key store is the content of the file at path \<open>i\<close>; the \<open>N\<close> paths are
  pairwise distinct; path 0 is the base path and path \<open>i > 0\<close> is the base path, a dot and
  the decimal digits of \<open>i\<close>.
\<close>

theorem ExportVRFKey_distinct_files:
  assumes keys: "fst (getKeys env c w) = Inr enckeys"
    and tgt: "c ''file'' = Some keypath"
    and writable: "\<forall>i<length enckeys. writeError w (ckeypath keypath i) = None"
  shows "fst (ExportVRFKey env c w) = None \<and>
         (\<forall>i<length enckeys.
            files (snd (ExportVRFKey env c w)) (ckeypath keypath i) = Some (enckeys ! i)) \<and>
         distinct (map (ckeypath keypath) [0..<length enckeys]) \<and>
         ckeypath keypath 0 = keypath \<and>
         (\<forall>i>0. ckeypath keypath i = keypath @ ''.'' @ fmt_d i)"
proof -
  let ?w1 = "snd (getKeys env c w)"
  from getKeys_fields [of env c w] have same: "writeError ?w1 = writeError w" by simp
  have run: "ExportVRFKey env c w = exportLoop keypath 0 enckeys ?w1"
    by (rule ExportVRFKey_loop [OF keys tgt])
  have ok: "fst (exportLoop keypath 0 enckeys ?w1) = None"
    by (rule exportLoop_succeeds) (simp add: same writable)
  have written: "\<forall>i<length enckeys.
      files (snd (exportLoop keypath 0 enckeys ?w1)) (ckeypath keypath i) = Some (enckeys ! i)"
    using exportLoop_written [OF ok] by simp
  have "inj_on (ckeypath keypath) (set [0..<length enckeys])"
    by (rule inj_onI) (rule ckeypath_inj)
  then have dist: "distinct (map (ckeypath keypath) [0..<length enckeys])"
    by (simp add: distinct_map)
  have paths: "ckeypath keypath 0 = keypath \<and> (\<forall>i>0. ckeypath keypath i = keypath @ ''.'' @ fmt_d i)"
    by (simp add: ckeypath_def)
  from run ok written dist paths show ?thesis by simp
qed

theorem ExportVRFKey_distinct_files_witness:
  "fst (ExportVRFKey sample_env [''publicKey'' \<mapsto> ''0x01'', ''file'' \<mapsto> ''a.json''] sample_world)
     = None \<and>
   files (snd (ExportVRFKey sample_env [''publicKey'' \<mapsto> ''0x01'', ''file'' \<mapsto> ''a.json'']
            sample_world)) ''a.json'' = Some (sample_record ''0x01'' ''aaa'') \<and>
   files (snd (ExportVRFKey sample_env [''publicKey'' \<mapsto> ''0x01'', ''file'' \<mapsto> ''a.json'']
            sample_world)) ''a.json.1'' = Some (sample_record ''0x01'' ''bbb'') \<and>
   files (snd (ExportVRFKey sample_env [''publicKey'' \<mapsto> ''0x01'', ''file'' \<mapsto> ''a.json'']
            sample_world)) ''a.json.2'' = Some (sample_record ''0x01'' ''ccc'') \<and>
   map (ckeypath ''a.json'') [0, 1, 2] = [''a.json'', ''a.json.1'', ''a.json.2'']"
proof -
  let ?c = "[''publicKey'' \<mapsto> ''0x01'', ''file'' \<mapsto> ''a.json'']"
  have tgt: "?c ''file'' = Some ''a.json''" by simp
  have writable: "\<forall>i<length [sample_record ''0x01'' ''aaa'', sample_record ''0x01'' ''bbb'', sample_record ''0x01'' ''ccc''].
      writeError sample_world (ckeypath ''a.json'' i) = None"
    by (simp add: sample_world_def ckeypath_def)
  note inst = ExportVRFKey_distinct_files [OF sample_getKeys_0x01, OF tgt writable]
  from inst have ok: "fst (ExportVRFKey sample_env ?c sample_world) = None" by simp
  from inst have "\<forall>i<3. files (snd (ExportVRFKey sample_env ?c sample_world))
      (ckeypath ''a.json'' i) = Some ([sample_record ''0x01'' ''aaa'', sample_record ''0x01'' ''bbb'', sample_record ''0x01'' ''ccc''] ! i)"
    by simp
  then have "files (snd (ExportVRFKey sample_env ?c sample_world))
      (ckeypath ''a.json'' 0) = Some ([sample_record ''0x01'' ''aaa'', sample_record ''0x01'' ''bbb'', sample_record ''0x01'' ''ccc''] ! 0)"
    and "files (snd (ExportVRFKey sample_env ?c sample_world))
      (ckeypath ''a.json'' 1) = Some ([sample_record ''0x01'' ''aaa'', sample_record ''0x01'' ''bbb'', sample_record ''0x01'' ''ccc''] ! 1)"
    and "files (snd (ExportVRFKey sample_env ?c sample_world))
      (ckeypath ''a.json'' 2) = Some ([sample_record ''0x01'' ''aaa'', sample_record ''0x01'' ''bbb'', sample_record ''0x01'' ''ccc''] ! 2)"
    by simp_all
  with ok show ?thesis by (simp add: sample_paths)
qed

text \<open>
  C4. When the key store's \<open>Import\<close> reports that the public key of the record is already
  in the database (\<open>MatchingVRFKeyError\<close>), and the key file decodes as JSON with the
  member \<^verbatim>\<open>PublicKey\<close>, \<open>ImportVRFKey\<close> returns that error, wrapped, and prints that
  public key inside the delete command to run before importing again, and the export
  command for a backup.
\<close>

theorem ImportVRFKey_duplicate_key:
  assumes "getPasswordAndKeyFile env c w = Inr (password, keyjson)"
    and "ks_Import env keyjson password (ks w) = (Some MatchingVRFKeyError, s)"
    and "json_PublicKey env keyjson = Inr publicKey"
  shows "fst (ImportVRFKey env c w) =
           Some (Wrap MatchingVRFKeyError ''while attempting to import key from CL'') \<and>
         stdout (snd (ImportVRFKey env c w)) =
           stdout w @ ''The database already has an entry for that public key.\<newline>''
             @ ''If you want to import the new key anyway, delete the old key with the command\<newline>\<newline>''
             @ ''`chainlink local delete -pk '' @ publicKey @ ''`''
             @ ''\<newline>\<newline>(but maybe back it up first, with ''
             @ ''chainlink local export -pk <public_key> -f <backup_path>`)\<newline>''"
  using assms by (simp add: ImportVRFKey_def Import_def print_defs)

theorem ImportVRFKey_duplicate_key_witness:
  "files sample_world ''key.json'' = Some (sample_record ''0x01'' ''eee'') \<and>
   ''0x01'' \<in> set (map fst (ks sample_world)) \<and>
   fst (ImportVRFKey sample_env [''password'' \<mapsto> ''pw.txt'', ''file'' \<mapsto> ''key.json'']
          sample_world) =
     Some (Wrap MatchingVRFKeyError ''while attempting to import key from CL'') \<and>
   stdout (snd (ImportVRFKey sample_env [''password'' \<mapsto> ''pw.txt'', ''file'' \<mapsto> ''key.json'']
            sample_world)) =
     ''The database already has an entry for that public key.\<newline>If you want to import the new key anyway, delete the old key with the command\<newline>\<newline>`chainlink local delete -pk 0x01`\<newline>\<newline>(but maybe back it up first, with chainlink local export -pk <public_key> -f <backup_path>`)\<newline>''"
proof -
  have held: "files sample_world ''key.json'' = Some (sample_record ''0x01'' ''eee'')"
    and registered: "''0x01'' \<in> set (map fst (ks sample_world))"
    by (simp_all add: sample_defs)
  have pf: "getPasswordAndKeyFile sample_env [''password'' \<mapsto> ''pw.txt'', ''file'' \<mapsto> ''key.json'']
      sample_world = Inr (''hunter2'', sample_record ''0x01'' ''eee'')"
    by (simp add: getPasswordAndKeyFile_def getPassword_def ReadFile_def flag_defs sample_defs)
  have imp: "ks_Import sample_env (sample_record ''0x01'' ''eee'') ''hunter2'' (ks sample_world) =
      (Some MatchingVRFKeyError, ks sample_world)"
    by (simp add: sample_defs)
  have js: "json_PublicKey sample_env (sample_record ''0x01'' ''eee'') = Inr ''0x01''"
    by (simp add: sample_defs)
  have s0: "stdout sample_world = []" by (simp add: sample_defs)
  from ImportVRFKey_duplicate_key [OF pf imp js] s0 held registered show ?thesis by simp
qed

text \<open>
  C5. When the key store's \<open>Delete\<close> reports that there is no record for the public key
  (\<open>AttemptToDeleteNonExistentKeyFromDB\<close>), \<open>DeleteVRFKey\<close> returns that error and prints
  a line that names the public key.
\<close>

theorem DeleteVRFKey_no_such_key:
  assumes "getPublicKey env c = Inr publicKey"
    and "ks_Delete env publicKey (ks w) = (Some AttemptToDeleteNonExistentKeyFromDB, s)"
  shows "fst (DeleteVRFKey env c w) = Some AttemptToDeleteNonExistentKeyFromDB \<and>
         stdout (snd (DeleteVRFKey env c w)) =
           stdout w @ ''There is already no entry in the DB for ''
             @ PublicKey_String env publicKey @ ''\<newline>''"
  using assms by (simp add: DeleteVRFKey_def Delete_def print_defs)

theorem DeleteVRFKey_no_such_key_witness:
  "fst (DeleteVRFKey sample_env [''publicKey'' \<mapsto> ''0x09''] sample_world) =
     Some AttemptToDeleteNonExistentKeyFromDB \<and>
   stdout (snd (DeleteVRFKey sample_env [''publicKey'' \<mapsto> ''0x09''] sample_world)) =
     ''There is already no entry in the DB for 0x09\<newline>''"
proof -
  have pk: "getPublicKey sample_env [''publicKey'' \<mapsto> ''0x09''] = Inr ''0x09''"
    by (simp add: sample_getPublicKey)
  have del: "ks_Delete sample_env ''0x09'' (ks sample_world) =
      (Some AttemptToDeleteNonExistentKeyFromDB, ks sample_world)"
    by (simp add: sample_defs)
  have s0: "stdout sample_world = []" "PublicKey_String sample_env ''0x09'' = ''0x09''"
    by (simp_all add: sample_defs)
  from DeleteVRFKey_no_such_key [OF pk del] s0 show ?thesis by simp
qed

text \<open>
  C6. When \<open>CreateAndExportWeakVRFKey\<close> returns no error, the only file that changed is the
  target file, which did not exist and now holds the serialised record; the state of the key
  store (its database) is as it was, and the only call made to the key store is
  \<open>CreateWeakInMemoryEncryptedKeyXXXTestingOnly\<close>.
\<close>

theorem CreateAndExportWeakVRFKey_only_file:
  assumes "CreateAndExportWeakVRFKey env c w = (None, w')"
  shows "\<exists>password key path.
           getPassword env c w = Inr password \<and>
           weakKey env password (ks w) = Inr key \<and>
           c ''file'' = Some path \<and> files w path = None \<and>
           files w' = (files w)(path \<mapsto> key_JSON env key) \<and>
           ks w' = ks w \<and>
           calls w' = calls w @ [CallCreateWeak password]"
  using assms
  by (auto simp: CreateAndExportWeakVRFKey_def ks_defs print_defs flag_defs
        noFileToOverwrite_iff Let_def WriteToDisk_def WriteFile_def
        split: sum.splits if_splits option.splits)

theorem CreateAndExportWeakVRFKey_only_file_witness:
  "fst (CreateAndExportWeakVRFKey sample_env [''file'' \<mapsto> ''weak.json'', ''password'' \<mapsto> ''pw.txt'']
          sample_world) = None \<and>
   files (snd (CreateAndExportWeakVRFKey sample_env
                 [''file'' \<mapsto> ''weak.json'', ''password'' \<mapsto> ''pw.txt''] sample_world)) =
     (files sample_world)(''weak.json'' \<mapsto> sample_record ''0x0b'' ''beef'') \<and>
   ks (snd (CreateAndExportWeakVRFKey sample_env
              [''file'' \<mapsto> ''weak.json'', ''password'' \<mapsto> ''pw.txt''] sample_world)) =
     ks sample_world \<and>
   calls (snd (CreateAndExportWeakVRFKey sample_env
                 [''file'' \<mapsto> ''weak.json'', ''password'' \<mapsto> ''pw.txt''] sample_world)) =
     [CallCreateWeak ''hunter2'']"
proof -
  let ?c = "[''file'' \<mapsto> ''weak.json'', ''password'' \<mapsto> ''pw.txt'']"
  let ?w' = "snd (CreateAndExportWeakVRFKey sample_env ?c sample_world)"
  have ok: "fst (CreateAndExportWeakVRFKey sample_env ?c sample_world) = None"
    by (simp add: CreateAndExportWeakVRFKey_def getPassword_def ks_defs print_defs flag_defs
          noFileToOverwrite_iff WriteToDisk_def WriteFile_def sample_defs)
  then have run: "CreateAndExportWeakVRFKey sample_env ?c sample_world = (None, ?w')"
    by (simp add: prod_eq_iff)
  from CreateAndExportWeakVRFKey_only_file [OF run]
  obtain password key path where
    pw: "getPassword sample_env ?c sample_world = Inr password" and
    key: "weakKey sample_env password (ks sample_world) = Inr key" and
    path: "?c ''file'' = Some path" and
    written: "files ?w' = (files sample_world)(path \<mapsto> key_JSON sample_env key)" and
    same: "ks ?w' = ks sample_world" and
    called: "calls ?w' = calls sample_world @ [CallCreateWeak password]"
    by blast
  from pw have password: "password = ''hunter2''"
    by (simp add: sample_getPassword)
  from key password have "key = sample_record ''0x0b'' ''beef''"
    by (simp add: sample_defs)
  moreover from path have "path = ''weak.json''" by simp
  moreover have "key_JSON sample_env (sample_record ''0x0b'' ''beef'') = sample_record ''0x0b'' ''beef''"
    and "calls sample_world = []"
    by (simp_all add: sample_defs)
  ultimately show ?thesis
    using ok written same called password by simp
qed

text \<open>
  C7. Without the password flag, \<open>CreateVRFKey\<close>, \<open>CreateAndExportWeakVRFKey\<close> and
  \<open>ImportVRFKey\<close> fail with "must specify password file" and the world is as it was: no
  call to the key store has been made. When the password file has been read, the password
  is the argument of the call to the key store and goes nowhere else: the files are as they
  were, but for the target file of \<open>CreateAndExportWeakVRFKey\<close>, which holds the serialised
  record of the key store; nothing is sent to the logger; the state of the key store is the
  one its method returned; and what is printed is made of the results of the key store and
  of the key file.
\<close>

theorem password_file_required:
  "(c ''password'' = None \<longrightarrow>
      CreateVRFKey env c w = (Some (Errorf ''must specify password file''), w) \<and>
      CreateAndExportWeakVRFKey env c w = (Some (Errorf ''must specify password file''), w) \<and>
      ImportVRFKey env c w = (Some (Errorf ''must specify password file''), w)) \<and>
   (c ''password'' = Some path \<and> passwordFromFile env path (files w) = Inr password \<longrightarrow>
      calls (snd (CreateVRFKey env c w)) = calls w @ [CallCreateKey password] \<and>
      files (snd (CreateVRFKey env c w)) = files w \<and>
      calls (snd (CreateAndExportWeakVRFKey env c w)) = calls w @ [CallCreateWeak password] \<and>
      (files (snd (CreateAndExportWeakVRFKey env c w)) = files w \<or>
       (\<exists>key. weakKey env password (ks w) = Inr key \<and>
              files (snd (CreateAndExportWeakVRFKey env c w))
                = (files w)(String c ''file'' \<mapsto> key_JSON env key))) \<and>
      calls (snd (ImportVRFKey env c w)) =
        (case getPasswordAndKeyFile env c w of
           Inl err \<Rightarrow> calls w
         | Inr (p, keyjson) \<Rightarrow> calls w @ [CallImport keyjson password]) \<and>
      files (snd (ImportVRFKey env c w)) = files w \<and>
      logged (snd (CreateVRFKey env c w)) = logged w \<and>
      logged (snd (CreateAndExportWeakVRFKey env c w)) = logged w \<and>
      logged (snd (ImportVRFKey env c w)) = logged w \<and>
      ks (snd (CreateVRFKey env c w)) = snd (ks_CreateKey env password (ks w)) \<and>
      ks (snd (CreateAndExportWeakVRFKey env c w)) = ks w \<and>
      ks (snd (ImportVRFKey env c w)) =
        (case getPasswordAndKeyFile env c w of
           Inl err \<Rightarrow> ks w
         | Inr (p, keyjson) \<Rightarrow> snd (ks_Import env keyjson password (ks w))) \<and>
      stdout (snd (CreateVRFKey env c w)) =
        stdout w @
          (case fst (ks_CreateKey env password (ks w)) of
             Inl err \<Rightarrow> []
           | Inr key \<Rightarrow>
               ''Created keypair, with public key\<newline>\<newline>''
                 @ PublicKey_String env key
                 @ ''\<newline>\<newline>The following command will export the encrypted secret key from the db to <save_path>:\<newline>\<newline>chainlink local vrf export -f <save_path> -pk ''
                 @ PublicKey_String env key @ ''\<newline>'') \<and>
      stdout (snd (CreateAndExportWeakVRFKey env c w)) =
        stdout w @
          (case weakKey env password (ks w) of
             Inl err \<Rightarrow> []
           | Inr key \<Rightarrow>
               if c ''file'' = None \<or> \<not> noFileToOverwrite (String c ''file'') w
               then ''must specify path to key file which does not already exist\<newline>''
               else ''Don't use this key for anything sensitive!\<newline>'') \<and>
      stdout (snd (ImportVRFKey env c w)) =
        stdout w @
          (case getPasswordAndKeyFile env c w of
             Inl err \<Rightarrow> []
           | Inr (p, keyjson) \<Rightarrow>
               if fst (ks_Import env keyjson password (ks w)) = Some MatchingVRFKeyError
               then ''The database already has an entry for that public key.\<newline>''
                    @ (case json_PublicKey env keyjson of
                         Inl jerr \<Rightarrow> ''could not extract public key from json input\<newline>''
                       | Inr PublicKey \<Rightarrow>
                           ''If you want to import the new key anyway, delete the old key with the command\<newline>\<newline>''
                             @ ''`chainlink local delete -pk '' @ PublicKey @ ''`''
                             @ ''\<newline>\<newline>(but maybe back it up first, with ''
                             @ ''chainlink local export -pk <public_key> -f <backup_path>`)\<newline>'')
               else []))"
  (is "(?A \<longrightarrow> ?P1) \<and> (?B \<longrightarrow> ?P2)")
proof (rule conjI)
  show "?A \<longrightarrow> ?P1"
  proof (rule impI)
    assume ?A
    then have none: "getPassword env c w = Inl (Errorf ''must specify password file'')"
      by (rule no_password_flag)
    show ?P1
      by (simp add: CreateVRFKey_def CreateAndExportWeakVRFKey_def ImportVRFKey_def
            getPasswordAndKeyFile_def none)
  qed
  show "?B \<longrightarrow> ?P2"
  proof (rule impI)
    assume ?B
    then have pw: "getPassword env c w = Inr password"
      by (simp add: password_read)
    from CreateVRFKey_password [OF pw] CreateAndExportWeakVRFKey_password [OF pw]
      ImportVRFKey_password [OF pw] CreateVRFKey_effects [OF pw]
      CreateAndExportWeakVRFKey_effects [OF pw] ImportVRFKey_effects [OF pw]
    show ?P2 by simp
  qed
qed

theorem password_file_required_witness:
  "CreateVRFKey sample_env Map.empty sample_world =
     (Some (Errorf ''must specify password file''), sample_world) \<and>
   CreateAndExportWeakVRFKey sample_env Map.empty sample_world =
     (Some (Errorf ''must specify password file''), sample_world) \<and>
   ImportVRFKey sample_env Map.empty sample_world =
     (Some (Errorf ''must specify password file''), sample_world) \<and>
   calls (snd (CreateVRFKey sample_env [''password'' \<mapsto> ''pw.txt'', ''file'' \<mapsto> ''key.json'']
                 sample_world)) = [CallCreateKey ''hunter2''] \<and>
   files (snd (CreateVRFKey sample_env [''password'' \<mapsto> ''pw.txt'', ''file'' \<mapsto> ''key.json'']
                 sample_world)) = files sample_world \<and>
   calls (snd (CreateAndExportWeakVRFKey sample_env
                 [''password'' \<mapsto> ''pw.txt'', ''file'' \<mapsto> ''key.json''] sample_world)) =
     [CallCreateWeak ''hunter2''] \<and>
   calls (snd (ImportVRFKey sample_env [''password'' \<mapsto> ''pw.txt'', ''file'' \<mapsto> ''key.json'']
                 sample_world)) = [CallImport (sample_record ''0x01'' ''eee'') ''hunter2''] \<and>
   files (snd (ImportVRFKey sample_env [''password'' \<mapsto> ''pw.txt'', ''file'' \<mapsto> ''key.json'']
                 sample_world)) = files sample_world \<and>
   logged (snd (CreateVRFKey sample_env [''password'' \<mapsto> ''pw.txt'', ''file'' \<mapsto> ''key.json'']
                  sample_world)) = [] \<and>
   logged (snd (CreateAndExportWeakVRFKey sample_env
                  [''password'' \<mapsto> ''pw.txt'', ''file'' \<mapsto> ''key.json''] sample_world)) = [] \<and>
   logged (snd (ImportVRFKey sample_env [''password'' \<mapsto> ''pw.txt'', ''file'' \<mapsto> ''key.json'']
                  sample_world)) = [] \<and>
   stdout (snd (CreateAndExportWeakVRFKey sample_env
                  [''password'' \<mapsto> ''pw.txt'', ''file'' \<mapsto> ''key.json''] sample_world)) =
     ''must specify path to key file which does not already exist\<newline>'' \<and>
   ks (snd (ImportVRFKey sample_env [''password'' \<mapsto> ''pw.txt'', ''file'' \<mapsto> ''key.json'']
              sample_world)) = ks sample_world"
proof -
  let ?c = "[''password'' \<mapsto> ''pw.txt'', ''file'' \<mapsto> ''key.json'']"
  have unset: "(Map.empty :: Context) ''password'' = None" by simp
  note part1 = password_file_required [of Map.empty sample_env sample_world, THEN conjunct1, THEN mp, OF unset]
  have given: "?c ''password'' = Some ''pw.txt'' \<and>
      passwordFromFile sample_env ''pw.txt'' (files sample_world) = Inr ''hunter2''"
    by (simp add: sample_defs)
  have pf: "getPasswordAndKeyFile sample_env ?c sample_world = Inr (''hunter2'', sample_record ''0x01'' ''eee'')"
    by (simp add: getPasswordAndKeyFile_def getPassword_def ReadFile_def flag_defs sample_defs)
  have imp: "ks_Import sample_env (sample_record ''0x01'' ''eee'') ''hunter2'' (ks sample_world) =
      (Some MatchingVRFKeyError, ks sample_world)"
    by (simp add: sample_defs)
  have key: "weakKey sample_env ''hunter2'' (ks sample_world) = Inr (sample_record ''0x0b'' ''beef'')"
    by (simp add: sample_defs)
  have taken: "\<not> noFileToOverwrite (String ?c ''file'') sample_world"
    by (simp add: String_def noFileToOverwrite_iff sample_defs)
  have w0: "calls sample_world = []" "logged sample_world = []" "stdout sample_world = []"
    by (simp_all add: sample_defs)
  note inst = password_file_required [of ?c sample_env sample_world "''pw.txt''" "''hunter2''",
      THEN conjunct2, THEN mp, OF given]
  from inst pf imp key taken w0 have part2:
    "calls (snd (CreateVRFKey sample_env ?c sample_world)) = [CallCreateKey ''hunter2''] \<and>
     files (snd (CreateVRFKey sample_env ?c sample_world)) = files sample_world \<and>
     calls (snd (CreateAndExportWeakVRFKey sample_env ?c sample_world)) =
       [CallCreateWeak ''hunter2''] \<and>
     calls (snd (ImportVRFKey sample_env ?c sample_world)) =
       [CallImport (sample_record ''0x01'' ''eee'') ''hunter2''] \<and>
     files (snd (ImportVRFKey sample_env ?c sample_world)) = files sample_world \<and>
     logged (snd (CreateVRFKey sample_env ?c sample_world)) = [] \<and>
     logged (snd (CreateAndExportWeakVRFKey sample_env ?c sample_world)) = [] \<and>
     logged (snd (ImportVRFKey sample_env ?c sample_world)) = [] \<and>
     stdout (snd (CreateAndExportWeakVRFKey sample_env ?c sample_world)) =
       ''must specify path to key file which does not already exist\<newline>'' \<and>
     ks (snd (ImportVRFKey sample_env ?c sample_world)) = ks sample_world"
    by simp
  from part1 part2 show ?thesis by simp
qed

text \<open>
  C8. When the password has been read: if the key store creates the key, \<open>CreateVRFKey\<close>
  returns no error and prints the public key and the export command for it; if the key
  store fails, \<open>CreateVRFKey\<close> returns the error wrapped with "while creating new account"
  and prints nothing.
\<close>

theorem CreateVRFKey_reports_public_key:
  assumes "getPassword env c w = Inr password"
  shows "(ks_CreateKey env password (ks w) = (Inr key, s) \<longrightarrow>
            fst (CreateVRFKey env c w) = None \<and>
            stdout (snd (CreateVRFKey env c w)) =
              stdout w @ ''Created keypair, with public key\<newline>\<newline>''
                @ PublicKey_String env key
                @ ''\<newline>\<newline>The following command will export the encrypted secret key from the db to <save_path>:\<newline>\<newline>chainlink local vrf export -f <save_path> -pk ''
                @ PublicKey_String env key @ ''\<newline>'') \<and>
         (ks_CreateKey env password (ks w) = (Inl err, s) \<longrightarrow>
            fst (CreateVRFKey env c w) = Some (Wrap err ''while creating new account'') \<and>
            stdout (snd (CreateVRFKey env c w)) = stdout w)"
  using assms by (simp add: CreateVRFKey_def CreateKey_def Print_def)

theorem CreateVRFKey_reports_public_key_witness:
  "fst (CreateVRFKey sample_env [''password'' \<mapsto> ''pw.txt''] sample_world) = None \<and>
   stdout (snd (CreateVRFKey sample_env [''password'' \<mapsto> ''pw.txt''] sample_world)) =
     ''Created keypair, with public key\<newline>\<newline>0x0a\<newline>\<newline>The following command will export the encrypted secret key from the db to <save_path>:\<newline>\<newline>chainlink local vrf export -f <save_path> -pk 0x0a\<newline>'' \<and>
   fst (CreateVRFKey sample_env [''password'' \<mapsto> ''empty.txt''] sample_world) =
     Some (Wrap (OtherError ''empty password'') ''while creating new account'') \<and>
   stdout (snd (CreateVRFKey sample_env [''password'' \<mapsto> ''empty.txt''] sample_world)) = []"
proof -
  have p1: "getPassword sample_env [''password'' \<mapsto> ''pw.txt''] sample_world = Inr ''hunter2''"
    by (simp add: getPassword_def flag_defs sample_defs)
  have k1: "ks_CreateKey sample_env ''hunter2'' (ks sample_world) =
      (Inr ''0x0a'', ks sample_world @ [(''0x0a'', sample_record ''0x0a'' ''f00d'')])"
    by (simp add: sample_defs)
  have p2: "getPassword sample_env [''password'' \<mapsto> ''empty.txt''] sample_world = Inr []"
    by (simp add: getPassword_def flag_defs sample_defs)
  have k2: "ks_CreateKey sample_env [] (ks sample_world) =
      (Inl (OtherError ''empty password''), ks sample_world)"
    by (simp add: sample_defs)
  have s0: "stdout sample_world = []" "PublicKey_String sample_env ''0x0a'' = ''0x0a''"
    by (simp_all add: sample_defs)
  from CreateVRFKey_reports_public_key [OF p1, of "''0x0a''"] k1
       CreateVRFKey_reports_public_key [OF p2, of _ _ "OtherError ''empty password''"] k2 s0
  show ?thesis by simp
qed

text \<open>
  C9. \<open>Forget\<close> returns no error for every input and performs no action: the files, the
  output, the log, the key store (database and in-memory keys) and the calls made to it are
  all as they were.
\<close>

theorem Forget_no_error_no_action:
  "Forget c w = (None, w)"
  by (simp add: Forget_def)

text \<open>
  C10. When the write of record \<open>i\<close> fails (and no earlier one does), \<open>ExportVRFKey\<close>
  returns the wrapped error of that write, the files of the records before \<open>i\<close> hold their
  records, and the files at the paths of the indices after \<open>i\<close> are as they were.
\<close>

theorem ExportVRFKey_partial_on_failure:
  assumes keys: "fst (getKeys env c w) = Inr enckeys"
    and tgt: "c ''file'' = Some keypath"
    and len: "i < length enckeys"
    and before: "\<forall>j<i. writeError w (ckeypath keypath j) = None"
    and fails: "writeError w (ckeypath keypath i) = Some e"
  shows "fst (ExportVRFKey env c w) =
           Some (Wrap e (''could not save '' @ enckeys ! i @ '' to '' @ ckeypath keypath i)) \<and>
         (\<forall>j<i. files (snd (ExportVRFKey env c w)) (ckeypath keypath j) = Some (enckeys ! j)) \<and>
         (\<forall>j>i. files (snd (ExportVRFKey env c w)) (ckeypath keypath j)
                  = files w (ckeypath keypath j))"
proof -
  let ?w1 = "snd (getKeys env c w)"
  from getKeys_fields [of env c w]
  have same: "writeError ?w1 = writeError w" and files1: "files ?w1 = files w" by simp_all
  have run: "ExportVRFKey env c w = exportLoop keypath 0 enckeys ?w1"
    by (rule ExportVRFKey_loop [OF keys tgt])
  let ?done = "exportLoop keypath 0 (take i enckeys) ?w1"
  have stop: "exportLoop keypath 0 enckeys ?w1 =
      (Some (Wrap e (''could not save '' @ enckeys ! i @ '' to '' @ ckeypath keypath i)), snd ?done)"
    using exportLoop_stops [OF len, of ?w1 keypath 0 e] before fails by (simp add: same)
  have ok: "fst ?done = None"
    by (rule exportLoop_succeeds) (simp add: same before)
  have earlier: "\<forall>j<i. files (snd ?done) (ckeypath keypath j) = Some (enckeys ! j)"
    using exportLoop_written [OF ok] len by simp
  have later: "\<forall>j>i. files (snd ?done) (ckeypath keypath j) = files w (ckeypath keypath j)"
  proof (intro allI impI)
    fix j assume "i < j"
    have "files (snd ?done) (ckeypath keypath j) = files ?w1 (ckeypath keypath j)"
      by (rule exportLoop_frame) (use \<open>i < j\<close> in \<open>auto dest: ckeypath_inj\<close>)
    then show "files (snd ?done) (ckeypath keypath j) = files w (ckeypath keypath j)"
      by (simp add: files1)
  qed
  from run stop earlier later show ?thesis by simp
qed

theorem ExportVRFKey_partial_on_failure_witness:
  "fst (ExportVRFKey sample_env [''publicKey'' \<mapsto> ''0x01'', ''file'' \<mapsto> ''b.json''] sample_world)
     = Some (Wrap (OtherError ''permission denied'') (''could not save '' @ sample_record ''0x01'' ''bbb'' @ '' to b.json.1'')) \<and>
   files (snd (ExportVRFKey sample_env [''publicKey'' \<mapsto> ''0x01'', ''file'' \<mapsto> ''b.json'']
            sample_world)) ''b.json'' = Some (sample_record ''0x01'' ''aaa'') \<and>
   files (snd (ExportVRFKey sample_env [''publicKey'' \<mapsto> ''0x01'', ''file'' \<mapsto> ''b.json'']
            sample_world)) ''b.json.2'' = None"
proof -
  let ?c = "[''publicKey'' \<mapsto> ''0x01'', ''file'' \<mapsto> ''b.json'']"
  have tgt: "?c ''file'' = Some ''b.json''" by simp
  have len: "1 < length [sample_record ''0x01'' ''aaa'', sample_record ''0x01'' ''bbb'', sample_record ''0x01'' ''ccc'']" by simp
  have before: "\<forall>j<1. writeError sample_world (ckeypath ''b.json'' j) = None"
    by (simp add: sample_world_def sample_paths)
  have fails: "writeError sample_world (ckeypath ''b.json'' 1) = Some (OtherError ''permission denied'')"
    by (simp add: sample_world_def sample_paths)
  note inst = ExportVRFKey_partial_on_failure [OF sample_getKeys_0x01, OF tgt len before fails]
  from inst have err: "fst (ExportVRFKey sample_env ?c sample_world) =
      Some (Wrap (OtherError ''permission denied'') (''could not save '' @ sample_record ''0x01'' ''bbb'' @ '' to b.json.1''))"
    by (simp add: sample_paths)
  from inst have "\<forall>j<1. files (snd (ExportVRFKey sample_env ?c sample_world))
      (ckeypath ''b.json'' j) = Some ([sample_record ''0x01'' ''aaa'', sample_record ''0x01'' ''bbb'', sample_record ''0x01'' ''ccc''] ! j)"
    by simp
  then have first: "files (snd (ExportVRFKey sample_env ?c sample_world)) ''b.json''
      = Some (sample_record ''0x01'' ''aaa'')"
    by (simp add: sample_paths)
  from inst have "\<forall>j>1. files (snd (ExportVRFKey sample_env ?c sample_world))
      (ckeypath ''b.json'' j) = files sample_world (ckeypath ''b.json'' j)"
    by simp
  then have "files (snd (ExportVRFKey sample_env ?c sample_world)) (ckeypath ''b.json'' 2)
      = files sample_world (ckeypath ''b.json'' 2)"
    by simp
  then have last: "files (snd (ExportVRFKey sample_env ?c sample_world)) ''b.json.2'' = None"
    by (simp add: sample_paths sample_world_def)
  from err first last show ?thesis by simp
qed

end
